theory Spec2Isabelle
  imports Main "HOL-Library.Sublist" "HOL-Library.AList"
begin

section \<open>JavaScript values\<close>

text \<open>
  The module \<^verbatim>\<open>src/renderer/versions.ts\<close> works on data that is typed only at compile
  time: what \<^verbatim>\<open>JSON.parse\<close> returns is \<^verbatim>\<open>any\<close>, and the declared
  \<^verbatim>\<open>NpmVersion\<close> and \<^verbatim>\<open>ElectronVersion\<close> are erased at run time. The embedding
  therefore keeps one type of run-time values. An object is the list of its own
  properties in insertion order. Numbers are integers here: the program only ever tests
  a number for truthiness.
\<close>

datatype jsval =
    JUndefined
  | JNull
  | JBool bool
  | JNum int
  | JStr string
  | JArr "jsval list"
  | JObj "(string \<times> jsval) list"

text \<open>What the code throws: the two built-in errors it can run into, and \<^verbatim>\<open>new Error(msg)\<close>.\<close>

datatype error = SyntaxError | TypeError | Error string

text \<open>\<^verbatim>\<open>!!v\<close>, the test behind \<^verbatim>\<open>if (v)\<close>, \<^verbatim>\<open>&&\<close> and \<^verbatim>\<open>||\<close>.\<close>

fun truthy :: "jsval \<Rightarrow> bool" where
  "truthy JUndefined = False"
| "truthy JNull = False"
| "truthy (JBool b) = b"
| "truthy (JNum n) = (n \<noteq> 0)"
| "truthy (JStr s) = (s \<noteq> [])"
| "truthy (JArr xs) = True"
| "truthy (JObj kvs) = True"

fun nullish :: "jsval \<Rightarrow> bool" where
  "nullish JUndefined = True"
| "nullish JNull = True"
| "nullish v = False"

fun is_object :: "jsval \<Rightarrow> bool" where
  "is_object (JObj kvs) = True"
| "is_object v = False"

text \<open>
  \<^verbatim>\<open>v.k\<close> for a value that is neither \<^verbatim>\<open>null\<close> nor \<^verbatim>\<open>undefined\<close>. The keys the
  program reads (\<^verbatim>\<open>version\<close>, \<^verbatim>\<open>name\<close>, \<^verbatim>\<open>localPath\<close>, \<^verbatim>\<open>source\<close>,
  \<^verbatim>\<open>tag_name\<close>, \<^verbatim>\<open>url\<close>) are on no prototype, so only an object's own properties
  answer; arrays and primitives give \<^verbatim>\<open>undefined\<close>.
\<close>

fun own_prop :: "jsval \<Rightarrow> string \<Rightarrow> jsval" where
  "own_prop (JObj kvs) k = (case map_of kvs k of Some x \<Rightarrow> x | None \<Rightarrow> JUndefined)"
| "own_prop v k = JUndefined"

text \<open>\<^verbatim>\<open>v.k\<close> in general: reading a property of \<^verbatim>\<open>null\<close> or \<^verbatim>\<open>undefined\<close> throws.\<close>

definition get_prop :: "jsval \<Rightarrow> string \<Rightarrow> error + jsval" where
  "get_prop v k = (if nullish v then Inl TypeError else Inr (own_prop v k))"

text \<open>
  \<^verbatim>\<open>a === b\<close>. Primitives are compared by value. Objects and arrays are compared by
  identity; every comparison of the program has on one side a value read out of freshly
  parsed or freshly built data, which shares its identity with nothing else.
\<close>

fun strict_eq :: "jsval \<Rightarrow> jsval \<Rightarrow> bool" where
  "strict_eq (JArr xs) b = False"
| "strict_eq (JObj kvs) b = False"
| "strict_eq a b = (a = b)"

text \<open>\<^verbatim>\<open>xs[i]\<close>: \<^verbatim>\<open>undefined\<close> past the end.\<close>

definition index :: "jsval list \<Rightarrow> nat \<Rightarrow> jsval" where
  "index xs i = (if i < length xs then xs ! i else JUndefined)"

subsection \<open>Array methods with a callback that may throw\<close>

text \<open>\<^verbatim>\<open>xs.find(p)\<close>: the first element that \<^verbatim>\<open>p\<close> accepts, or \<^verbatim>\<open>undefined\<close>.\<close>

fun Array_find :: "(jsval \<Rightarrow> error + bool) \<Rightarrow> jsval list \<Rightarrow> error + jsval" where
  "Array_find p [] = Inr JUndefined"
| "Array_find p (x # xs) =
     (case p x of
        Inl e \<Rightarrow> Inl e
      | Inr b \<Rightarrow> if b then Inr x else Array_find p xs)"

fun Array_every :: "('a \<Rightarrow> error + bool) \<Rightarrow> 'a list \<Rightarrow> error + bool" where
  "Array_every p [] = Inr True"
| "Array_every p (x # xs) =
     (case p x of
        Inl e \<Rightarrow> Inl e
      | Inr b \<Rightarrow> if b then Array_every p xs else Inr False)"

fun Array_filter :: "('a \<Rightarrow> error + bool) \<Rightarrow> 'a list \<Rightarrow> error + 'a list" where
  "Array_filter p [] = Inr []"
| "Array_filter p (x # xs) =
     (case p x of
        Inl e \<Rightarrow> Inl e
      | Inr b \<Rightarrow>
          (case Array_filter p xs of
             Inl e \<Rightarrow> Inl e
           | Inr ys \<Rightarrow> Inr (if b then x # ys else ys)))"

text \<open>\<^verbatim>\<open>s.includes(t)\<close> on strings: \<^verbatim>\<open>t\<close> starts at some position of \<^verbatim>\<open>s\<close>.\<close>

fun String_includes :: "string \<Rightarrow> string \<Rightarrow> bool" where
  "String_includes [] t = (t = [])"
| "String_includes (c # cs) t = (prefix t (c # cs) \<or> String_includes cs t)"

section \<open>The key/value store\<close>

text \<open>
  \<^verbatim>\<open>window.localStorage\<close>: strings under string keys. \<^verbatim>\<open>getItem\<close> gives \<^verbatim>\<open>null\<close>
  for a key that was never set.
\<close>

type_synonym storage = "string \<Rightarrow> string option"

definition getItem :: "storage \<Rightarrow> string \<Rightarrow> jsval" where
  "getItem st k = (case st k of None \<Rightarrow> JNull | Some s \<Rightarrow> JStr s)"

definition setItem :: "storage \<Rightarrow> string \<Rightarrow> string \<Rightarrow> storage" where
  "setItem st k s = st(k \<mapsto> s)"

section \<open>The default version\<close>

text \<open>
  \<^verbatim>\<open>normalizeVersion\<close> lives in \<^verbatim>\<open>../utils/normalize-version\<close>, which is not among
  the sources; it is a parameter here, a function from a string to a string or
  \<^verbatim>\<open>null\<close> (\<open>None\<close>).
\<close>

definition has_version :: "jsval \<Rightarrow> jsval \<Rightarrow> error + bool" where
  \<comment> \<open>the callback \<^verbatim>\<open>({ version }) => version === x\<close>\<close>
  "has_version x v =
     (case get_prop v ''version'' of
        Inl e \<Rightarrow> Inl e
      | Inr w \<Rightarrow> Inr (strict_eq w x))"

definition normalized_of :: "(string \<Rightarrow> string option) \<Rightarrow> jsval \<Rightarrow> jsval" where
  \<comment> \<open>\<^verbatim>\<open>ls && normalizeVersion(ls)\<close>\<close>
  "normalized_of normalizeVersion ls =
     (case ls of
        JStr s \<Rightarrow>
          (if truthy ls
           then (case normalizeVersion s of None \<Rightarrow> JNull | Some n \<Rightarrow> JStr n)
           else ls)
      | _ \<Rightarrow> ls)"

definition first_version :: "jsval \<Rightarrow> jsval list \<Rightarrow> error + jsval" where
  \<comment> \<open>the two last attempts of \<^verbatim>\<open>getDefaultVersion\<close>, and its \<^verbatim>\<open>throw\<close>\<close>
  "first_version ls knownVersions =
     (if truthy ls \<and> truthy (index knownVersions 0)
      then Inr (own_prop (index knownVersions 0) ''version'')
      else if truthy (index knownVersions 0)
              \<and> truthy (own_prop (index knownVersions 0) ''version'')
      then Inr (own_prop (index knownVersions 0) ''version'')
      else Inl (Error ''Corrupted version data''))"

definition normalized_version ::
  "(string \<Rightarrow> string option) \<Rightarrow> jsval \<Rightarrow> jsval list \<Rightarrow> error + jsval" where
  \<comment> \<open>from \<^verbatim>\<open>const normalized = ...\<close> to the end of \<^verbatim>\<open>getDefaultVersion\<close>\<close>
  "normalized_version normalizeVersion ls knownVersions =
     (let normalized = normalized_of normalizeVersion ls in
      if truthy normalized
      then (case Array_find (has_version normalized) knownVersions of
              Inl e \<Rightarrow> Inl e
            | Inr found \<Rightarrow>
                if truthy found then Inr normalized
                else first_version ls knownVersions)
      else first_version ls knownVersions)"

definition getDefaultVersion ::
  "(string \<Rightarrow> string option) \<Rightarrow> storage \<Rightarrow> jsval list \<Rightarrow> error + jsval" where
  "getDefaultVersion normalizeVersion st knownVersions =
     (let ls = getItem st ''version'' in
      if truthy ls
      then (case Array_find (has_version ls) knownVersions of
              Inl e \<Rightarrow> Inl e
            | Inr found \<Rightarrow>
                if truthy found then Inr ls
                else normalized_version normalizeVersion ls knownVersions)
      else normalized_version normalizeVersion ls knownVersions)"

section \<open>Release channels\<close>

datatype ElectronReleaseChannel = Stable | Beta | Nightly | Unsupported

text \<open>
  \<^verbatim>\<open>tag.includes(x)\<close> for whatever \<^verbatim>\<open>tag\<close> is at run time: the substring test on a
  string, membership on an array, and a \<^verbatim>\<open>TypeError\<close> on anything else, which has no
  such method.
\<close>

definition includes_tag :: "jsval \<Rightarrow> string \<Rightarrow> error + bool" where
  "includes_tag tag x =
     (case tag of
        JStr s \<Rightarrow> Inr (String_includes s x)
      | JArr xs \<Rightarrow> Inr (JStr x \<in> set xs)
      | _ \<Rightarrow> Inl TypeError)"

definition getReleaseChannel :: "jsval \<Rightarrow> error + ElectronReleaseChannel" where
  "getReleaseChannel input =
     (case get_prop input ''version'' of
        Inl e \<Rightarrow> Inl e
      | Inr version \<Rightarrow>
          (let tag = (if truthy version then version else JStr '''') in
           case includes_tag tag ''beta'' of
             Inl e \<Rightarrow> Inl e
           | Inr True \<Rightarrow> Inr Beta
           | Inr False \<Rightarrow>
               (case includes_tag tag ''nightly'' of
                  Inl e \<Rightarrow> Inl e
                | Inr True \<Rightarrow> Inr Nightly
                | Inr False \<Rightarrow>
                    (case includes_tag tag ''unsupported'' of
                       Inl e \<Rightarrow> Inl e
                     | Inr True \<Rightarrow> Inr Unsupported
                     | Inr False \<Rightarrow> Inr Stable))))"

section \<open>Persisted collections\<close>

text \<open>
  \<^verbatim>\<open>JSON.parse\<close> and \<^verbatim>\<open>JSON.stringify\<close> belong to the platform, not to the
  repository: they are parameters. \<open>JSON_parse\<close> gives \<open>None\<close> where
  \<^verbatim>\<open>JSON.parse\<close> throws its \<^verbatim>\<open>SyntaxError\<close>.
\<close>

record platform =
  JSON_parse :: "string \<Rightarrow> jsval option"
  JSON_stringify :: "jsval \<Rightarrow> string"

text \<open>
  What the platform reads back: the value that \<^verbatim>\<open>JSON.parse\<close> makes of the text
  that \<^verbatim>\<open>JSON.stringify\<close> writes for an array or an object. Inside an array
  \<^verbatim>\<open>undefined\<close> is written as \<^verbatim>\<open>null\<close>; a property whose value is
  \<^verbatim>\<open>undefined\<close> is not written; everything else is written as it is. The program
  only ever writes arrays. \<open>json_value\<close> holds of the values without
  \<^verbatim>\<open>undefined\<close> inside, which are read back unchanged.
\<close>

fun read_back :: "jsval \<Rightarrow> jsval" where
  "read_back (JArr xs) =
     JArr (map (\<lambda>x. if x = JUndefined then JNull else read_back x) xs)"
| "read_back (JObj kvs) =
     JObj (map (\<lambda>(k, v). (k, read_back v)) (filter (\<lambda>(k, v). v \<noteq> JUndefined) kvs))"
| "read_back v = v"


datatype VersionKeys = VersionKeys_local | VersionKeys_known

fun key_name :: "VersionKeys \<Rightarrow> string" where
  "key_name VersionKeys_local = ''local-electron-versions''"
| "key_name VersionKeys_known = ''known-electron-versions''"

text \<open>
  Modelled from the spec: the enums \<^verbatim>\<open>ElectronVersionSource\<close> and
  \<^verbatim>\<open>ElectronVersionState\<close> are declared in \<^verbatim>\<open>../interfaces\<close>, which is not among
  the sources. The spec names the provenance tags \<^verbatim>\<open>remote\<close> and \<^verbatim>\<open>local\<close> and
  the states \<^verbatim>\<open>unknown\<close> and \<^verbatim>\<open>ready\<close>; each member is taken to carry its name.
\<close>

definition ElectronVersionSource_remote :: jsval where
  "ElectronVersionSource_remote = JStr ''remote''"

definition ElectronVersionSource_local :: jsval where
  "ElectronVersionSource_local = JStr ''local''"

definition ElectronVersionState_unknown :: jsval where
  "ElectronVersionState_unknown = JStr ''unknown''"

definition ElectronVersionState_ready :: jsval where
  "ElectronVersionState_ready = JStr ''ready''"

definition has_truthy_version :: "jsval \<Rightarrow> error + bool" where
  \<comment> \<open>the callback \<^verbatim>\<open>(entry) => !!entry.version\<close>\<close>
  "has_truthy_version entry =
     (case get_prop entry ''version'' of
        Inl e \<Rightarrow> Inl e
      | Inr v \<Rightarrow> Inr (truthy v))"

definition isExpectedFormat :: "jsval \<Rightarrow> error + bool" where
  \<comment> \<open>only an array has \<^verbatim>\<open>every\<close>; on any other parsed value the call throws\<close>
  "isExpectedFormat input =
     (case input of
        JArr xs \<Rightarrow> Array_every has_truthy_version xs
      | _ \<Rightarrow> Inl TypeError)"

definition migrate_item :: "jsval \<Rightarrow> jsval" where
  \<comment> \<open>the callback of \<^verbatim>\<open>map\<close> in \<^verbatim>\<open>migrateVersions\<close>; its argument is truthy\<close>
  "migrate_item item =
     (let tag_name = own_prop item ''tag_name'';
          name = own_prop item ''name'';
          url = own_prop item ''url''
      in if \<not> truthy tag_name \<or> \<not> truthy name \<or> \<not> truthy url then JNull
         else JObj [(''version'', tag_name), (''name'', name), (''localPath'', url)])"

definition migrateVersions :: "jsval \<Rightarrow> error + jsval list" where
  \<comment> \<open>\<^verbatim>\<open>input = []\<close> stands in for \<^verbatim>\<open>undefined\<close> only\<close>
  "migrateVersions input =
     (case input of
        JUndefined \<Rightarrow> Inr []
      | JArr xs \<Rightarrow> Inr (filter truthy (map migrate_item (filter truthy xs)))
      | _ \<Rightarrow> Inl TypeError)"

definition isElectronVersion :: "jsval \<Rightarrow> error + bool" where
  "isElectronVersion input =
     (case get_prop input ''source'' of
        Inl e \<Rightarrow> Inl e
      | Inr source \<Rightarrow> Inr (source \<noteq> JUndefined))"

definition saveVersions :: "platform \<Rightarrow> storage \<Rightarrow> VersionKeys \<Rightarrow> jsval list \<Rightarrow> storage" where
  "saveVersions P st key versions =
     (let stringified = JSON_stringify P (JArr versions)
      in setItem st (key_name key) stringified)"

definition is_saved_locally :: "jsval \<Rightarrow> error + bool" where
  \<comment> \<open>the callback of \<^verbatim>\<open>filter\<close> in \<^verbatim>\<open>saveLocalVersions\<close>\<close>
  "is_saved_locally v =
     (case isElectronVersion v of
        Inl e \<Rightarrow> Inl e
      | Inr True \<Rightarrow> Inr (strict_eq (own_prop v ''source'') ElectronVersionSource_local)
      | Inr False \<Rightarrow> Inr True)"

definition saveLocalVersions :: "platform \<Rightarrow> storage \<Rightarrow> jsval list \<Rightarrow> error + storage" where
  \<comment> \<open>the filter throws before anything is written\<close>
  "saveLocalVersions P st versions =
     (case Array_filter is_saved_locally versions of
        Inl e \<Rightarrow> Inl e
      | Inr filteredVersions \<Rightarrow> Inr (saveVersions P st VersionKeys_local filteredVersions))"

definition saveKnownVersions :: "platform \<Rightarrow> storage \<Rightarrow> jsval list \<Rightarrow> storage" where
  "saveKnownVersions P st versions = saveVersions P st VersionKeys_known versions"

fun elements :: "jsval \<Rightarrow> jsval list" where
  "elements (JArr xs) = xs"
| "elements v = []"

definition getVersions_try ::
  "platform \<Rightarrow> storage \<Rightarrow> VersionKeys \<Rightarrow> string \<Rightarrow> error + jsval list \<times> storage" where
  \<comment> \<open>the \<^verbatim>\<open>try\<close> block of \<^verbatim>\<open>getVersions\<close>; \<^verbatim>\<open>isExpectedFormat\<close> returns only
      for an array, whose elements the result is\<close>
  "getVersions_try P st key fromLs =
     (case JSON_parse P fromLs of
        None \<Rightarrow> Inl SyntaxError
      | Some result \<Rightarrow>
          (case isExpectedFormat result of
             Inl e \<Rightarrow> Inl e
           | Inr True \<Rightarrow> Inr (elements result, st)
           | Inr False \<Rightarrow>
               if key = VersionKeys_known
               then Inl (Error ''Electron versions in LS does not match expected format'')
               else (case migrateVersions result of
                       Inl e \<Rightarrow> Inl e
                     | Inr migrated \<Rightarrow>
                         (case saveLocalVersions P st migrated of
                            Inl e \<Rightarrow> Inl e
                          | Inr st' \<Rightarrow> Inr (migrated, st')))))"

definition getVersions ::
  "platform \<Rightarrow> storage \<Rightarrow> VersionKeys \<Rightarrow> (unit \<Rightarrow> jsval list) \<Rightarrow> jsval list \<times> storage" where
  \<comment> \<open>whatever the \<^verbatim>\<open>try\<close> block throws is caught, and the fallback returned\<close>
  "getVersions P st key fallbackMethod =
     (let fromLs = getItem st (key_name key) in
      case fromLs of
        JStr s \<Rightarrow>
          (if truthy fromLs
           then (case getVersions_try P st key s of
                   Inl e \<Rightarrow> (fallbackMethod (), st)
                 | Inr r \<Rightarrow> r)
           else (fallbackMethod (), st))
      | _ \<Rightarrow> (fallbackMethod (), st))"

definition getLocalVersions :: "platform \<Rightarrow> storage \<Rightarrow> jsval list \<times> storage" where
  "getLocalVersions P st = getVersions P st VersionKeys_local (\<lambda>_. [])"

text \<open>
  \<^verbatim>\<open>require('../../static/releases.json')\<close> reads a file that is not among the
  sources: the bundled list is the parameter \<open>releases\<close>.
\<close>

definition getKnownVersions :: "platform \<Rightarrow> jsval list \<Rightarrow> storage \<Rightarrow> jsval list \<times> storage" where
  "getKnownVersions P releases st = getVersions P st VersionKeys_known (\<lambda>_. releases)"

section \<open>The aggregated view\<close>

function decimal :: "nat \<Rightarrow> string" where
  "decimal n =
     (if n < 10 then [char_of (48 + n)]
      else decimal (n div 10) @ [char_of (48 + n mod 10)])"
  by pat_completeness auto
termination
  by (relation "measure id") auto

text \<open>
  The own enumerable properties that \<^verbatim>\<open>{ ...v }\<close> copies: those of an object, the
  indexed elements of an array, the indexed characters of a string, none of anything else.
\<close>

fun spread :: "jsval \<Rightarrow> (string \<times> jsval) list" where
  "spread (JObj kvs) = kvs"
| "spread (JArr xs) = zip (map decimal [0..<length xs]) xs"
| "spread (JStr s) = zip (map decimal [0..<length s]) (map (\<lambda>c. JStr [c]) s)"
| "spread v = []"

definition tagged :: "jsval \<Rightarrow> jsval \<Rightarrow> jsval \<Rightarrow> jsval" where
  \<comment> \<open>\<^verbatim>\<open>{ ...version, source: source, state: state }\<close>\<close>
  "tagged source state version =
     JObj (AList.update ''state'' state (AList.update ''source'' source (spread version)))"

definition getElectronVersions :: "platform \<Rightarrow> jsval list \<Rightarrow> storage \<Rightarrow> jsval list \<times> storage" where
  "getElectronVersions P releases st =
     (let (knownVersions, st1) = getKnownVersions P releases st;
          known = map (tagged ElectronVersionSource_remote ElectronVersionState_unknown)
                    knownVersions;
          (localVersions, st2) = getLocalVersions P st1;
          local = map (tagged ElectronVersionSource_local ElectronVersionState_ready)
                    localVersions
      in (known @ local, st2))"

definition same_localPath :: "jsval \<Rightarrow> jsval \<Rightarrow> error + bool" where
  \<comment> \<open>the callback \<^verbatim>\<open>(v) => v.localPath === input.localPath\<close>\<close>
  "same_localPath input v =
     (case get_prop v ''localPath'' of
        Inl e \<Rightarrow> Inl e
      | Inr a \<Rightarrow>
          (case get_prop input ''localPath'' of
             Inl e \<Rightarrow> Inl e
           | Inr b \<Rightarrow> Inr (strict_eq a b)))"

definition pushed :: "jsval \<Rightarrow> jsval \<Rightarrow> jsval list \<Rightarrow> jsval list" where
  \<comment> \<open>\<^verbatim>\<open>if (!found) { versions.push(input) }\<close>\<close>
  "pushed found input versions =
     (if \<not> truthy found then versions @ [input] else versions)"

definition addLocalVersion ::
  "platform \<Rightarrow> storage \<Rightarrow> jsval \<Rightarrow> (error + jsval list) \<times> storage" where
  \<comment> \<open>an exception leaves the store as \<^verbatim>\<open>getLocalVersions\<close> left it\<close>
  "addLocalVersion P st input =
     (let (versions, st1) = getLocalVersions P st in
      case Array_find (same_localPath input) versions of
        Inl e \<Rightarrow> (Inl e, st1)
      | Inr found \<Rightarrow>
          (let versions' = pushed found input versions in
           case saveLocalVersions P st1 versions' of
             Inl e \<Rightarrow> (Inl e, st1)
           | Inr st2 \<Rightarrow> (Inr versions', st2)))"

text \<open>
  \<^verbatim>\<open>fetchVersions\<close> and \<^verbatim>\<open>getUpdatedElectronVersions\<close> are left out: they await a
  network request and then call \<^verbatim>\<open>saveKnownVersions\<close> and
  \<^verbatim>\<open>getElectronVersions\<close>, which are embedded above.
\<close>

section \<open>Sample data\<close>

text \<open>
  Concrete inputs on which the theorems below are instantiated. The normalizer drops one
  leading \<^verbatim>\<open>v\<close>. The platform knows a handful of texts and the values they stand for,
  and nothing else; for a value it writes the text that stands for what the value is
  read back as.
\<close>

definition sample_normalizeVersion :: "string \<Rightarrow> string option" where
  "sample_normalizeVersion s =
     (if s \<noteq> [] \<and> hd s = CHR ''v'' then Some (tl s) else Some s)"

definition sample_legacy :: "jsval list" where
  "sample_legacy =
     [JObj [(''tag_name'', JStr ''v1.0.0''), (''name'', JStr ''One''), (''url'', JStr ''/a'')],
      JObj [],
      JObj [(''tag_name'', JStr ''v2.0.0'')]]"

definition sample_migrated :: "jsval list" where
  "sample_migrated =
     [JObj [(''version'', JStr ''v1.0.0''), (''name'', JStr ''One''),
            (''localPath'', JStr ''/a'')]]"

definition sample_known :: "jsval list" where
  "sample_known = [JObj [(''version'', JStr ''1.0.0'')]]"

definition sample_local :: "jsval list" where
  "sample_local = [JObj [(''version'', JStr ''1.0.0''), (''localPath'', JStr ''/x'')]]"

definition sample_kept :: "jsval list" where
  "sample_kept =
     [JObj [(''version'', JStr ''1.0.0''), (''localPath'', JStr ''/x'')],
      JObj [(''version'', JStr ''2.0.0''), (''localPath'', JStr ''/y''),
            (''source'', JStr ''local''), (''state'', JStr ''ready'')]]"

definition sample_texts :: "(string \<times> jsval) list" where
  "sample_texts =
     [(''[]'', JArr []),
      (''{}'', JObj []),
      (''[{tag_name:v1.0.0,name:One,url:/a},{},{tag_name:v2.0.0}]'', JArr sample_legacy),
      (''[null,{tag_name:v1.0.0,name:One,url:/a}]'',
       JArr [JNull,
             JObj [(''tag_name'', JStr ''v1.0.0''), (''name'', JStr ''One''),
                   (''url'', JStr ''/a'')]]),
      (''[{version:v1.0.0,name:One,localPath:/a}]'', JArr sample_migrated),
      (''[{version:v1.0.0,name:One,localPath:[null]}]'',
       JArr [JObj [(''version'', JStr ''v1.0.0''), (''name'', JStr ''One''),
                   (''localPath'', JArr [JNull])]]),
      (''[{version:1.0.0}]'', JArr sample_known),
      (''[{version:1.0.0,localPath:/x}]'', JArr sample_local),
      (''[{version:1.0.0,localPath:/x},{version:2.0.0,localPath:/y,source:local,state:ready}]'',
       JArr sample_kept),
      (''[{version:3.0.0,localPath:/z,source:remote}]'',
       JArr [JObj [(''version'', JStr ''3.0.0''), (''localPath'', JStr ''/z''),
                   (''source'', JStr ''remote'')]])]"

definition sample_platform :: platform where
  "sample_platform =
     \<lparr>JSON_parse = map_of sample_texts,
      JSON_stringify =
        (\<lambda>v. case List.find (\<lambda>(t, w). w = read_back v) sample_texts of
               Some (t, w) \<Rightarrow> t
             | None \<Rightarrow> ''null'')\<rparr>"

section \<open>Vocabulary of the statements\<close>

abbreviation complete_legacy :: "jsval \<Rightarrow> bool" where
  "complete_legacy item \<equiv>
     truthy (own_prop item ''tag_name'') \<and> truthy (own_prop item ''name'')
     \<and> truthy (own_prop item ''url'')"

abbreviation version_of_legacy :: "jsval \<Rightarrow> jsval" where
  "version_of_legacy item \<equiv>
     JObj [(''version'', own_prop item ''tag_name''), (''name'', own_prop item ''name''),
           (''localPath'', own_prop item ''url'')]"

abbreviation kept_on_save :: "jsval \<Rightarrow> bool" where
  "kept_on_save v \<equiv>
     own_prop v ''source'' = JUndefined \<or> own_prop v ''source'' = ElectronVersionSource_local"

section \<open>Values, arrays and strings\<close>

lemma strict_eq_imp_eq: "strict_eq a b \<Longrightarrow> a = b"
  by (cases a) auto

lemma strict_eq_JStr [simp]: "strict_eq a (JStr s) = (a = JStr s)"
  by (cases a) auto

lemma truthy_not_nullish: "truthy v \<Longrightarrow> \<not> nullish v"
  by (cases v) auto

lemma is_object_not_nullish: "is_object v \<Longrightarrow> \<not> nullish v"
  by (cases v) auto

lemma is_object_truthy: "is_object v \<Longrightarrow> truthy v"
  by (cases v) auto

lemma truthy_own_prop_is_object: "truthy (own_prop v k) \<Longrightarrow> is_object v"
  by (cases v) auto

lemma falsy_has_no_props: "\<not> truthy item \<Longrightarrow> own_prop item k = JUndefined"
  by (cases item) auto

lemma Array_find_truthy:
  "Array_find p xs = Inr v \<Longrightarrow> truthy v \<Longrightarrow> v \<in> set xs \<and> p v = Inr True"
  by (induction xs) (auto split: sum.splits if_splits)

lemma Array_find_objects:
  assumes "\<forall>x\<in>set xs. p x = Inr (q x)" and "\<forall>x\<in>set xs. is_object x"
  shows "\<exists>found. Array_find p xs = Inr found \<and> truthy found = (\<exists>x\<in>set xs. q x)"
  using assms by (induction xs) (auto simp: is_object_truthy)

lemma Array_every_total:
  "\<forall>x\<in>set xs. p x = Inr (q x) \<Longrightarrow> Array_every p xs = Inr (list_all q xs)"
  by (induction xs) auto

lemma Array_every_True:
  "Array_every p xs = Inr True \<Longrightarrow> \<forall>x\<in>set xs. p x = Inr True"
  by (induction xs) (auto split: sum.splits if_splits)

lemma Array_filter_total:
  "\<forall>x\<in>set xs. p x = Inr (q x) \<Longrightarrow> Array_filter p xs = Inr (filter q xs)"
  by (induction xs) auto



lemma String_includes_sublist: "String_includes s t = sublist t s"
  by (induction s) (auto simp: sublist_Cons_right)

lemmas sample_defs = sample_platform_def sample_texts_def sample_legacy_def
  sample_migrated_def sample_known_def sample_local_def sample_kept_def

section \<open>The default version\<close>

lemma found_has_version:
  assumes "Array_find (has_version x) known = Inr v" and "truthy v"
  shows "\<exists>v\<in>set known. get_prop v ''version'' = Inr x"
proof -
  from assms have v: "v \<in> set known" and hv: "has_version x v = Inr True"
    by (auto dest: Array_find_truthy)
  from hv obtain w where w: "get_prop v ''version'' = Inr w" and eq: "strict_eq w x"
    by (auto simp: has_version_def split: sum.splits)
  from eq have "w = x" by (rule strict_eq_imp_eq)
  with v w show ?thesis by blast
qed

lemma first_version_in_list:
  assumes "first_version ls known = Inr r"
  shows "\<exists>v\<in>set known. get_prop v ''version'' = Inr r"
proof (cases known)
  case Nil
  with assms show ?thesis by (simp add: first_version_def index_def)
next
  case (Cons x xs)
  with assms have "truthy x" and "r = own_prop x ''version''"
    by (auto simp: first_version_def index_def split: if_splits)
  then have "get_prop x ''version'' = Inr r"
    by (simp add: get_prop_def truthy_not_nullish)
  with Cons show ?thesis by auto
qed

lemma normalized_version_in_list:
  assumes "normalized_version nv ls known = Inr r"
  shows "\<exists>v\<in>set known. get_prop v ''version'' = Inr r"
  using assms
  by (auto simp: normalized_version_def Let_def
           split: if_splits sum.splits
           dest: found_has_version first_version_in_list)

lemma has_version_is_object:
  "is_object v \<Longrightarrow> has_version x v = Inr (strict_eq (own_prop v ''version'') x)"
  by (simp add: has_version_def get_prop_def is_object_not_nullish)

lemma find_version_objects:
  assumes "\<forall>v\<in>set known. is_object v"
  shows "\<exists>found. Array_find (has_version (JStr s)) known = Inr found
           \<and> truthy found = (\<exists>v\<in>set known. own_prop v ''version'' = JStr s)"
proof -
  have "\<forall>v\<in>set known. has_version (JStr s) v = Inr (own_prop v ''version'' = JStr s)"
    using assms by (simp add: has_version_is_object)
  then show ?thesis using assms by (rule Array_find_objects)
qed

lemma first_version_objects:
  assumes "\<forall>v\<in>set known. is_object v"
  shows "first_version ls known =
           (if known = [] then Inl (Error ''Corrupted version data'')
            else if truthy ls \<or> truthy (own_prop (hd known) ''version'')
            then Inr (own_prop (hd known) ''version'')
            else Inl (Error ''Corrupted version data''))"
proof (cases known)
  case Nil
  then show ?thesis by (simp add: first_version_def index_def)
next
  case (Cons x xs)
  with assms have "truthy x" by (simp add: is_object_truthy)
  with Cons show ?thesis by (simp add: first_version_def index_def)
qed

lemma normalized_version_objects:
  assumes "\<forall>v\<in>set known. is_object v"
  shows "normalized_version nv (JStr s) known =
           (case (if s \<noteq> [] then nv s else Some s) of
              Some n \<Rightarrow>
                if n \<noteq> [] \<and> (\<exists>v\<in>set known. own_prop v ''version'' = JStr n)
                then Inr (JStr n) else first_version (JStr s) known
            | None \<Rightarrow> first_version (JStr s) known)"
proof (cases "if s \<noteq> [] then nv s else Some s")
  case None
  then show ?thesis
    by (auto simp: normalized_version_def normalized_of_def split: if_splits)
next
  case (Some n)
  then have n: "normalized_of nv (JStr s) = JStr n"
    by (auto simp: normalized_of_def split: if_splits)
  from find_version_objects [OF assms, of n]
  obtain found where "Array_find (has_version (JStr n)) known = Inr found"
    and "truthy found = (\<exists>v\<in>set known. own_prop v ''version'' = JStr n)"
    by blast
  with Some n show ?thesis
    by (auto simp: normalized_version_def Let_def)
qed

lemma getDefaultVersion_stored:
  assumes "st ''version'' = Some s" and "s \<noteq> []" and "\<forall>v\<in>set known. is_object v"
  shows "getDefaultVersion nv st known =
           (if \<exists>v\<in>set known. own_prop v ''version'' = JStr s then Inr (JStr s)
            else normalized_version nv (JStr s) known)"
proof -
  from find_version_objects [OF assms(3), of s]
  obtain found where "Array_find (has_version (JStr s)) known = Inr found"
    and "truthy found = (\<exists>v\<in>set known. own_prop v ''version'' = JStr s)"
    by blast
  with assms(1,2) show ?thesis
    by (simp add: getDefaultVersion_def getItem_def)
qed

lemma getDefaultVersion_not_stored:
  assumes "st ''version'' = None \<or> st ''version'' = Some []"
  shows "getDefaultVersion nv st known =
           first_version (getItem st ''version'') known"
  using assms
  by (auto simp: getDefaultVersion_def getItem_def normalized_version_def normalized_of_def)

lemma first_version_falsy:
  "\<not> truthy ls \<Longrightarrow> first_version ls known = first_version JNull known"
  by (simp add: first_version_def)

lemma getDefaultVersion_empty_string:
  assumes "st ''version'' = Some []"
  shows "getDefaultVersion nv st known = getDefaultVersion nv (st(''version'' := None)) known"
  using assms
  by (simp add: getDefaultVersion_not_stored getItem_def first_version_falsy [of "JStr []"])

text \<open>
  C1, as the code has it. For a list of record objects, \<^verbatim>\<open>getDefaultVersion\<close> throws
  \<^verbatim>\<open>Corrupted version data\<close> exactly when the list is empty, or when no non-empty
  remembered selection is stored and the version of the first record is empty or
  missing. A stored selection does not help an empty list: there is no record to fall
  back to.
\<close>

theorem getDefaultVersion_raises_iff:
  assumes "\<forall>v\<in>set known. is_object v"
  shows "(getDefaultVersion nv st known = Inl (Error ''Corrupted version data''))
         = (known = []
            \<or> ((st ''version'' = None \<or> st ''version'' = Some [])
                \<and> \<not> truthy (own_prop (hd known) ''version'')))"
proof (cases "st ''version'' = None \<or> st ''version'' = Some []")
  case True
  then have "\<not> truthy (getItem st ''version'')"
    by (auto simp: getItem_def)
  with True show ?thesis
    by (simp add: getDefaultVersion_not_stored first_version_objects [OF assms])
next
  case False
  then obtain s where s: "st ''version'' = Some s" "s \<noteq> []"
    by (cases "st ''version''") auto
  have "getDefaultVersion nv st known =
           (if \<exists>v\<in>set known. own_prop v ''version'' = JStr s then Inr (JStr s)
            else normalized_version nv (JStr s) known)"
    using s assms by (rule getDefaultVersion_stored)
  then show ?thesis
    using s
    by (cases "nv s")
       (auto simp: normalized_version_objects [OF assms] first_version_objects [OF assms])
qed

text \<open>
  A stored selection with an empty list throws; nothing stored and a first record with an
  empty version throws; nothing stored and a first record with a version does not.
\<close>

theorem getDefaultVersion_raises_iff_witness:
  "getDefaultVersion sample_normalizeVersion (Map.empty(''version'' \<mapsto> ''1.0.0'')) []
     = Inl (Error ''Corrupted version data'')
   \<and> getDefaultVersion sample_normalizeVersion Map.empty [JObj [(''version'', JStr '''')]]
     = Inl (Error ''Corrupted version data'')
   \<and> getDefaultVersion sample_normalizeVersion Map.empty [JObj [(''version'', JStr ''2.0.0'')]]
     \<noteq> Inl (Error ''Corrupted version data'')"
  using getDefaultVersion_raises_iff
          [of "[]" sample_normalizeVersion "Map.empty(''version'' \<mapsto> ''1.0.0'')"]
        getDefaultVersion_raises_iff
          [of "[JObj [(''version'', JStr '''')]]" sample_normalizeVersion Map.empty]
        getDefaultVersion_raises_iff
          [of "[JObj [(''version'', JStr ''2.0.0'')]]" sample_normalizeVersion Map.empty]
  by simp

text \<open>
  C1 as it is worded fails: with the selection \<^verbatim>\<open>1.0.0\<close> stored and an empty list the
  error is raised, although it is not the case that nothing is stored.
\<close>

theorem getDefaultVersion_raises_counterexample:
  "(Map.empty(''version'' \<mapsto> ''1.0.0'')) ''version'' = Some ''1.0.0''
   \<and> getDefaultVersion sample_normalizeVersion (Map.empty(''version'' \<mapsto> ''1.0.0'')) []
       = Inl (Error ''Corrupted version data'')
   \<and> \<not> ((getDefaultVersion sample_normalizeVersion
              (Map.empty(''version'' \<mapsto> ''1.0.0'')) []
            = Inl (Error ''Corrupted version data''))
          \<longleftrightarrow> (([] :: jsval list) = []
               \<and> (Map.empty(''version'' \<mapsto> ''1.0.0'')) ''version'' = None))"
  by (simp add: getDefaultVersion_def normalized_version_def normalized_of_def
        first_version_def index_def getItem_def sample_normalizeVersion_def)

text \<open>
  C4, as the code has it. With a non-empty remembered selection \<open>s\<close> stored and a list
  of record objects, \<^verbatim>\<open>getDefaultVersion\<close> returns \<open>s\<close> if some record has exactly
  that version; else the normalized selection if it is non-empty and some record has
  exactly that version; else the version of the first record if the list is not empty
  (and throws if it is). An empty stored string counts as no selection: the result is
  the one for a store without the entry.
\<close>

theorem getDefaultVersion_resolution:
  assumes "\<forall>v\<in>set known. is_object v"
  shows "(st ''version'' = Some s \<and> s \<noteq> [] \<longrightarrow>
            getDefaultVersion nv st known =
              (if \<exists>v\<in>set known. own_prop v ''version'' = JStr s then Inr (JStr s)
               else if \<exists>n. nv s = Some n \<and> n \<noteq> []
                          \<and> (\<exists>v\<in>set known. own_prop v ''version'' = JStr n)
               then Inr (JStr (the (nv s)))
               else if known \<noteq> [] then Inr (own_prop (hd known) ''version'')
               else Inl (Error ''Corrupted version data'')))
         \<and> (st ''version'' = Some [] \<longrightarrow>
              getDefaultVersion nv st known
                = getDefaultVersion nv (st(''version'' := None)) known)"
proof (intro conjI impI)
  assume stored: "st ''version'' = Some s \<and> s \<noteq> []"
  then have "getDefaultVersion nv st known =
           (if \<exists>v\<in>set known. own_prop v ''version'' = JStr s then Inr (JStr s)
            else normalized_version nv (JStr s) known)"
    using assms by (intro getDefaultVersion_stored) simp_all
  then show "getDefaultVersion nv st known =
              (if \<exists>v\<in>set known. own_prop v ''version'' = JStr s then Inr (JStr s)
               else if \<exists>n. nv s = Some n \<and> n \<noteq> []
                          \<and> (\<exists>v\<in>set known. own_prop v ''version'' = JStr n)
               then Inr (JStr (the (nv s)))
               else if known \<noteq> [] then Inr (own_prop (hd known) ''version'')
               else Inl (Error ''Corrupted version data''))"
    using stored
    by (cases "nv s")
       (auto simp: normalized_version_objects [OF assms] first_version_objects [OF assms])
next
  assume "st ''version'' = Some []"
  then show "getDefaultVersion nv st known
               = getDefaultVersion nv (st(''version'' := None)) known"
    by (rule getDefaultVersion_empty_string)
qed

text \<open>
  The three steps on the list \<^verbatim>\<open>2.0.0, 1.0.0\<close>: an exact match, a match after
  normalization, and the first record for a selection that matches nothing; then the
  empty selection, which is read as none.
\<close>

theorem getDefaultVersion_resolution_witness:
  "getDefaultVersion sample_normalizeVersion (Map.empty(''version'' \<mapsto> ''1.0.0''))
     [JObj [(''version'', JStr ''2.0.0'')], JObj [(''version'', JStr ''1.0.0'')]]
     = Inr (JStr ''1.0.0'')
   \<and> getDefaultVersion sample_normalizeVersion (Map.empty(''version'' \<mapsto> ''v1.0.0''))
     [JObj [(''version'', JStr ''2.0.0'')], JObj [(''version'', JStr ''1.0.0'')]]
     = Inr (JStr ''1.0.0'')
   \<and> getDefaultVersion sample_normalizeVersion (Map.empty(''version'' \<mapsto> ''garbage''))
     [JObj [(''version'', JStr ''2.0.0'')], JObj [(''version'', JStr ''1.0.0'')]]
     = Inr (JStr ''2.0.0'')
   \<and> getDefaultVersion sample_normalizeVersion (Map.empty(''version'' \<mapsto> ''''))
     [JObj [(''version'', JStr ''2.0.0'')]]
     = getDefaultVersion sample_normalizeVersion Map.empty
         [JObj [(''version'', JStr ''2.0.0'')]]"
proof -
  let ?known = "[JObj [(''version'', JStr ''2.0.0'')], JObj [(''version'', JStr ''1.0.0'')]]"
  have objs: "\<forall>v\<in>set ?known. is_object v"
    and obj: "\<forall>v\<in>set [JObj [(''version'', JStr ''2.0.0'')]]. is_object v"
    by simp_all
  have empty: "(Map.empty(''version'' \<mapsto> ''''))(''version'' := None) = Map.empty"
    by simp
  show ?thesis
    using getDefaultVersion_resolution
            [OF objs, where st = "Map.empty(''version'' \<mapsto> ''1.0.0'')"
               and s = "''1.0.0''" and nv = sample_normalizeVersion]
          getDefaultVersion_resolution
            [OF objs, where st = "Map.empty(''version'' \<mapsto> ''v1.0.0'')"
               and s = "''v1.0.0''" and nv = sample_normalizeVersion]
          getDefaultVersion_resolution
            [OF objs, where st = "Map.empty(''version'' \<mapsto> ''garbage'')"
               and s = "''garbage''" and nv = sample_normalizeVersion]
          getDefaultVersion_resolution
            [OF obj, where st = "Map.empty(''version'' \<mapsto> '''')"
               and s = "''''" and nv = sample_normalizeVersion]
    unfolding empty
    by (simp add: sample_normalizeVersion_def)
qed

text \<open>
  C4 as it is worded fails on the empty string: it is stored, it equals the version of
  the only record, and still it is not returned; the code throws.
\<close>

theorem getDefaultVersion_resolution_counterexample:
  "(Map.empty(''version'' \<mapsto> '''')) ''version'' = Some ''''
   \<and> own_prop (JObj [(''version'', JStr '''')]) ''version'' = JStr ''''
   \<and> getDefaultVersion sample_normalizeVersion (Map.empty(''version'' \<mapsto> ''''))
         [JObj [(''version'', JStr '''')]]
       \<noteq> Inr (JStr '''')
   \<and> getDefaultVersion sample_normalizeVersion (Map.empty(''version'' \<mapsto> ''''))
         [JObj [(''version'', JStr '''')]]
       = Inl (Error ''Corrupted version data'')"
  by (simp add: getDefaultVersion_def normalized_version_def normalized_of_def
        first_version_def index_def getItem_def)

text \<open>
  C10. Whatever \<^verbatim>\<open>getDefaultVersion\<close> returns is the \<^verbatim>\<open>version\<close> of some record of
  the list it was given.
\<close>

theorem getDefaultVersion_in_list:
  assumes "getDefaultVersion nv st known = Inr r"
  shows "\<exists>v\<in>set known. get_prop v ''version'' = Inr r"
  using assms
  by (auto simp: getDefaultVersion_def Let_def
           split: if_splits sum.splits
           dest: found_has_version normalized_version_in_list)

theorem getDefaultVersion_in_list_witness:
  "getDefaultVersion sample_normalizeVersion (Map.empty(''version'' \<mapsto> ''v2.0.0''))
     [JObj [(''version'', JStr ''1.0.0'')], JObj [(''version'', JStr ''2.0.0'')]]
     = Inr (JStr ''2.0.0'')
   \<and> (\<exists>v\<in>set [JObj [(''version'', JStr ''1.0.0'')], JObj [(''version'', JStr ''2.0.0'')]].
         get_prop v ''version'' = Inr (JStr ''2.0.0''))"
proof -
  have run: "getDefaultVersion sample_normalizeVersion (Map.empty(''version'' \<mapsto> ''v2.0.0''))
     [JObj [(''version'', JStr ''1.0.0'')], JObj [(''version'', JStr ''2.0.0'')]]
     = Inr (JStr ''2.0.0'')"
    by (simp add: getDefaultVersion_def normalized_version_def normalized_of_def
          getItem_def has_version_def get_prop_def sample_normalizeVersion_def)
  from run getDefaultVersion_in_list [OF run] show ?thesis by blast
qed

section \<open>Release channels\<close>

text \<open>
  C9. For a record whose version is the string \<open>tag\<close>, the channel is Beta if
  \<open>tag\<close> contains \<^verbatim>\<open>beta\<close>; otherwise Nightly if it contains \<^verbatim>\<open>nightly\<close>; otherwise
  Unsupported if it contains \<^verbatim>\<open>unsupported\<close>; otherwise Stable. (\<open>sublist t s\<close>:
  \<open>s = p @ t @ q\<close> for some \<open>p\<close> and \<open>q\<close>.)
\<close>

theorem getReleaseChannel_first_marker_wins:
  assumes "get_prop input ''version'' = Inr (JStr tag)"
  shows "getReleaseChannel input =
           Inr (if sublist ''beta'' tag then Beta
                else if sublist ''nightly'' tag then Nightly
                else if sublist ''unsupported'' tag then Unsupported
                else Stable)"
  using assms
  by (cases "tag = []")
     (simp_all add: getReleaseChannel_def includes_tag_def String_includes_sublist)

theorem getReleaseChannel_first_marker_wins_witness:
  "getReleaseChannel (JObj [(''version'', JStr ''10.0.0-beta.1'')]) = Inr Beta
   \<and> getReleaseChannel (JObj [(''version'', JStr ''10.0.0-nightly.1'')]) = Inr Nightly
   \<and> getReleaseChannel (JObj [(''version'', JStr ''10.0.0'')]) = Inr Stable
   \<and> getReleaseChannel (JObj [(''version'', JStr ''1.0.0-unsupported-nightly-beta'')])
       = Inr Beta"
proof -
  have v: "get_prop (JObj [(''version'', JStr t)]) ''version'' = Inr (JStr t)" for t
    by (simp add: get_prop_def)
  have "sublist ''beta'' ''10.0.0-beta.1''"
    and "\<not> sublist ''beta'' ''10.0.0-nightly.1''"
    and "sublist ''nightly'' ''10.0.0-nightly.1''"
    and "\<not> sublist ''beta'' ''10.0.0''"
    and "\<not> sublist ''nightly'' ''10.0.0''"
    and "\<not> sublist ''unsupported'' ''10.0.0''"
    and "sublist ''beta'' ''1.0.0-unsupported-nightly-beta''"
    by code_simp+
  then show ?thesis
    using getReleaseChannel_first_marker_wins [OF v, of "''10.0.0-beta.1''"]
          getReleaseChannel_first_marker_wins [OF v, of "''10.0.0-nightly.1''"]
          getReleaseChannel_first_marker_wins [OF v, of "''10.0.0''"]
          getReleaseChannel_first_marker_wins [OF v, of "''1.0.0-unsupported-nightly-beta''"]
    by simp
qed

section \<open>The legacy migrator\<close>

lemma migrate_item_eq:
  "migrate_item item = (if complete_legacy item then version_of_legacy item else JNull)"
  by (simp add: migrate_item_def Let_def)

lemma migrate_items:
  "filter truthy (map migrate_item (filter truthy xs))
     = map version_of_legacy (filter complete_legacy xs)"
proof (induction xs)
  case Nil
  then show ?case by simp
next
  case (Cons x xs)
  show ?case
  proof (cases "truthy x")
    case True
    with Cons show ?thesis by (simp add: migrate_item_eq)
  next
    case False
    then have "\<not> complete_legacy x" by (simp add: falsy_has_no_props)
    with False Cons show ?thesis by simp
  qed
qed

lemma migrateVersions_JArr:
  "migrateVersions (JArr xs) = Inr (map version_of_legacy (filter complete_legacy xs))"
  by (simp add: migrateVersions_def migrate_items)

lemma migrateVersions_Inr:
  assumes "migrateVersions input = Inr m"
  shows "\<exists>xs. m = map version_of_legacy (filter complete_legacy xs)"
proof (cases input)
  case JUndefined
  with assms have "m = map version_of_legacy (filter complete_legacy [])"
    by (simp add: migrateVersions_def)
  then show ?thesis by blast
next
  case (JArr xs)
  with assms show ?thesis by (auto simp: migrateVersions_JArr)
qed (use assms in \<open>simp_all add: migrateVersions_def\<close>)

text \<open>
  C8, as the code has it. \<^verbatim>\<open>migrateVersions\<close> keeps, in their order, the entries
  whose \<^verbatim>\<open>tag_name\<close>, \<^verbatim>\<open>name\<close> and \<^verbatim>\<open>url\<close> are all truthy, each as
  \<^verbatim>\<open>{version: tag_name, name, localPath: url}\<close>, and drops every other entry: one that
  lacks a field, and also one that has a field which is empty, zero, false or null. The
  example of the spec comes out as the spec has it.
\<close>

theorem migrateVersions_keeps_complete_entries:
  "migrateVersions (JArr xs) = Inr (map version_of_legacy (filter complete_legacy xs))
   \<and> migrateVersions
       (JArr [JObj [(''tag_name'', JStr ''v1.0.0''), (''name'', JStr ''One''),
                    (''url'', JStr ''/a'')],
              JObj [],
              JObj [(''tag_name'', JStr ''v2.0.0'')]])
       = Inr [JObj [(''version'', JStr ''v1.0.0''), (''name'', JStr ''One''),
                    (''localPath'', JStr ''/a'')]]"
  by (simp add: migrateVersions_JArr)

theorem migrateVersions_keeps_complete_entries_witness:
  "migrateVersions
     (JArr [JNull,
            JObj [(''tag_name'', JStr ''v3.0.0''), (''name'', JStr ''Three''),
                  (''url'', JStr ''/c''), (''extra'', JNum 1)],
            JObj [(''tag_name'', JStr ''v4.0.0''), (''name'', JNull), (''url'', JStr ''/d'')],
            JObj [(''tag_name'', JStr ''v5.0.0''), (''name'', JStr ''Five''),
                  (''url'', JStr ''/e'')]])
     = Inr [JObj [(''version'', JStr ''v3.0.0''), (''name'', JStr ''Three''),
                  (''localPath'', JStr ''/c'')],
            JObj [(''version'', JStr ''v5.0.0''), (''name'', JStr ''Five''),
                  (''localPath'', JStr ''/e'')]]"
  using migrateVersions_keeps_complete_entries
          [of "[JNull,
                JObj [(''tag_name'', JStr ''v3.0.0''), (''name'', JStr ''Three''),
                      (''url'', JStr ''/c''), (''extra'', JNum 1)],
                JObj [(''tag_name'', JStr ''v4.0.0''), (''name'', JNull),
                      (''url'', JStr ''/d'')],
                JObj [(''tag_name'', JStr ''v5.0.0''), (''name'', JStr ''Five''),
                      (''url'', JStr ''/e'')]]"]
  by simp

text \<open>
  C8 as it is worded fails: an entry that has all three fields, the name being the empty
  string, is not mapped to a record but dropped.
\<close>

theorem migrateVersions_empty_field_counterexample:
  "map_of [(''tag_name'', JStr ''v1.0.0''), (''name'', JStr ''''), (''url'', JStr ''/a'')]
       ''tag_name'' = Some (JStr ''v1.0.0'')
   \<and> map_of [(''tag_name'', JStr ''v1.0.0''), (''name'', JStr ''''), (''url'', JStr ''/a'')]
       ''name'' = Some (JStr '''')
   \<and> map_of [(''tag_name'', JStr ''v1.0.0''), (''name'', JStr ''''), (''url'', JStr ''/a'')]
       ''url'' = Some (JStr ''/a'')
   \<and> migrateVersions
         (JArr [JObj [(''tag_name'', JStr ''v1.0.0''), (''name'', JStr ''''),
                      (''url'', JStr ''/a'')]])
       \<noteq> Inr [JObj [(''version'', JStr ''v1.0.0''), (''name'', JStr ''''),
                     (''localPath'', JStr ''/a'')]]
   \<and> migrateVersions
         (JArr [JObj [(''tag_name'', JStr ''v1.0.0''), (''name'', JStr ''''),
                      (''url'', JStr ''/a'')]])
       = Inr []"
  by (simp add: migrateVersions_def migrate_item_def)

section \<open>Saving and loading\<close>

lemma is_saved_locally_eq:
  "\<not> nullish v \<Longrightarrow> is_saved_locally v = Inr (kept_on_save v)"
  by (auto simp: is_saved_locally_def isElectronVersion_def get_prop_def
        ElectronVersionSource_local_def split: bool.splits)

lemma saveLocalVersions_eq:
  assumes "\<forall>v\<in>set versions. \<not> nullish v"
  shows "saveLocalVersions P st versions =
           Inr (st(key_name VersionKeys_local \<mapsto>
                     JSON_stringify P (JArr (filter kept_on_save versions))))"
proof -
  have "Array_filter is_saved_locally versions = Inr (filter kept_on_save versions)"
    using assms by (intro Array_filter_total) (simp add: is_saved_locally_eq)
  then show ?thesis
    by (simp add: saveLocalVersions_def saveVersions_def setItem_def)
qed

lemma migrated_kept:
  assumes "migrateVersions input = Inr m"
  shows "\<forall>v\<in>set m. \<not> nullish v \<and> kept_on_save v \<and> has_truthy_version v = Inr True"
proof -
  from assms obtain xs where "m = map version_of_legacy (filter complete_legacy xs)"
    by (auto dest: migrateVersions_Inr)
  then show ?thesis
    by (auto simp: has_truthy_version_def get_prop_def)
qed

lemma saveLocalVersions_migrated:
  assumes "migrateVersions input = Inr m"
  shows "saveLocalVersions P st m =
           Inr (st(key_name VersionKeys_local \<mapsto> JSON_stringify P (JArr m)))"
proof -
  from migrated_kept [OF assms] have "\<forall>v\<in>set m. \<not> nullish v" and "filter kept_on_save m = m"
    by (auto simp: filter_id_conv)
  then show ?thesis by (simp add: saveLocalVersions_eq)
qed

lemma isExpectedFormat_migrated:
  assumes "migrateVersions input = Inr m"
  shows "isExpectedFormat (JArr m) = Inr True"
proof -
  from migrated_kept [OF assms] have "\<forall>v\<in>set m. has_truthy_version v = Inr ((\<lambda>_. True) v)"
    by simp
  then have "Array_every has_truthy_version m = Inr (list_all (\<lambda>_. True) m)"
    by (rule Array_every_total)
  then show ?thesis by (simp add: isExpectedFormat_def list_all_iff)
qed

lemma isExpectedFormat_Inr: "isExpectedFormat v = Inr b \<Longrightarrow> \<exists>xs. v = JArr xs"
  by (cases v) (auto simp: isExpectedFormat_def)

lemma getVersions_valid:
  assumes "st (key_name key) = Some t" and "t \<noteq> []"
      and "JSON_parse P t = Some (JArr xs)" and "isExpectedFormat (JArr xs) = Inr True"
  shows "getVersions P st key fallbackMethod = (xs, st)"
  using assms by (simp add: getVersions_def getItem_def getVersions_try_def)

lemma getVersions_known_invalid:
  assumes "st (key_name VersionKeys_known) = Some t"
      and "JSON_parse P t = Some parsed" and "isExpectedFormat parsed \<noteq> Inr True"
  shows "getVersions P st VersionKeys_known fallbackMethod = (fallbackMethod (), st)"
  using assms
  by (auto simp: getVersions_def getItem_def getVersions_try_def
           split: sum.splits bool.splits)

lemma getVersions_local_invalid:
  assumes "st (key_name VersionKeys_local) = Some t" and "t \<noteq> []"
      and "JSON_parse P t = Some parsed" and "isExpectedFormat parsed = Inr False"
  shows "\<exists>m. migrateVersions parsed = Inr m
           \<and> getVersions P st VersionKeys_local fallbackMethod
               = (m, st(key_name VersionKeys_local \<mapsto> JSON_stringify P (JArr m)))"
proof -
  from assms(4) obtain xs where xs: "parsed = JArr xs"
    by (auto dest: isExpectedFormat_Inr)
  then obtain m where m: "migrateVersions parsed = Inr m"
    by (simp add: migrateVersions_JArr)
  have "getVersions P st VersionKeys_local fallbackMethod
          = (m, st(key_name VersionKeys_local \<mapsto> JSON_stringify P (JArr m)))"
    using assms m saveLocalVersions_migrated [OF m, of P st]
    by (simp add: getVersions_def getItem_def getVersions_try_def)
  with m show ?thesis by blast
qed

lemma getVersions_known_store: "snd (getVersions P st VersionKeys_known fb) = st"
  by (auto simp: getVersions_def getItem_def getVersions_try_def
           split: option.splits sum.splits bool.splits)

lemma has_truthy_version_True: "has_truthy_version x = Inr True \<Longrightarrow> is_object x"
  by (auto simp: has_truthy_version_def get_prop_def split: if_splits
           dest: truthy_own_prop_is_object)

lemma getVersions_objects:
  assumes "getVersions P st key fb = (vs, st1)" and "\<forall>v\<in>set (fb ()). is_object v"
  shows "\<forall>v\<in>set vs. is_object v"
proof (cases "\<exists>r. (case st (key_name key) of None \<Rightarrow> Inl TypeError
                     | Some t \<Rightarrow> if t = [] then Inl TypeError else getVersions_try P st key t)
                    = Inr r")
  case False
  with assms(1) have "vs = fb ()"
    by (auto simp: getVersions_def getItem_def split: option.splits sum.splits if_splits)
  with assms(2) show ?thesis by simp
next
  case True
  then obtain t where t: "getVersions_try P st key t = Inr (vs, st1)"
    using assms(1)
    by (auto simp: getVersions_def getItem_def split: option.splits sum.splits if_splits)
  then obtain parsed where p: "JSON_parse P t = Some parsed"
    by (auto simp: getVersions_try_def split: option.splits)
  show ?thesis
  proof (cases "isExpectedFormat parsed = Inr True")
    case True
    then obtain xs where xs: "parsed = JArr xs" by (auto dest: isExpectedFormat_Inr)
    with True have "\<forall>x\<in>set xs. has_truthy_version x = Inr True"
      by (auto simp: isExpectedFormat_def dest: Array_every_True)
    then have "\<forall>x\<in>set xs. is_object x"
      by (auto dest: has_truthy_version_True)
    moreover from t p True xs have "vs = xs" by (simp add: getVersions_try_def)
    ultimately show ?thesis by simp
  next
    case False
    with t p obtain m where "migrateVersions parsed = Inr m" and "vs = m"
      by (auto simp: getVersions_try_def split: sum.splits bool.splits if_splits)
    then show ?thesis by (auto dest!: migrateVersions_Inr)
  qed
qed

lemma getLocalVersions_objects:
  "getLocalVersions P st = (vs, st1) \<Longrightarrow> \<forall>v\<in>set vs. is_object v"
  unfolding getLocalVersions_def by (erule getVersions_objects) simp

text \<open>
  C7. For a list of records (no \<^verbatim>\<open>null\<close>, no \<^verbatim>\<open>undefined\<close> among them),
  \<^verbatim>\<open>saveLocalVersions\<close> writes under the local key exactly the records whose
  \<^verbatim>\<open>source\<close> is absent or is \<^verbatim>\<open>local\<close>, in their order; a record whose source is
  \<^verbatim>\<open>remote\<close> is not among what is written.
\<close>

theorem saveLocalVersions_keeps_local_and_untagged:
  assumes "\<forall>v\<in>set versions. \<not> nullish v"
  shows "saveLocalVersions P st versions =
           Inr (st(key_name VersionKeys_local \<mapsto>
                     JSON_stringify P (JArr (filter kept_on_save versions))))
         \<and> (\<forall>v\<in>set versions. own_prop v ''source'' = ElectronVersionSource_remote
               \<longrightarrow> v \<notin> set (filter kept_on_save versions))"
  using assms
  by (simp add: saveLocalVersions_eq ElectronVersionSource_remote_def
        ElectronVersionSource_local_def)

theorem saveLocalVersions_keeps_local_and_untagged_witness:
  "saveLocalVersions sample_platform Map.empty
     [JObj [(''version'', JStr ''1.0.0''), (''localPath'', JStr ''/x'')],
      JObj [(''version'', JStr ''3.0.0''), (''source'', JStr ''remote''),
            (''state'', JStr ''unknown'')],
      JObj [(''version'', JStr ''2.0.0''), (''localPath'', JStr ''/y''),
            (''source'', JStr ''local''), (''state'', JStr ''ready'')]]
     = Inr (Map.empty(''local-electron-versions'' \<mapsto>
         ''[{version:1.0.0,localPath:/x},{version:2.0.0,localPath:/y,source:local,state:ready}]''))"
  using saveLocalVersions_keeps_local_and_untagged
          [of "[JObj [(''version'', JStr ''1.0.0''), (''localPath'', JStr ''/x'')],
                JObj [(''version'', JStr ''3.0.0''), (''source'', JStr ''remote''),
                      (''state'', JStr ''unknown'')],
                JObj [(''version'', JStr ''2.0.0''), (''localPath'', JStr ''/y''),
                      (''source'', JStr ''local''), (''state'', JStr ''ready'')]]"
              sample_platform Map.empty]
  by (simp add: sample_defs ElectronVersionSource_local_def)

lemma getVersions_not_array:
  assumes "JSON_parse P t = Some parsed" and "\<forall>xs. parsed \<noteq> JArr xs"
      and "st (key_name key) = Some t"
  shows "getVersions P st key fallbackMethod = (fallbackMethod (), st)"
proof -
  from assms(2) have "isExpectedFormat parsed = Inl TypeError"
    by (cases parsed) (simp_all add: isExpectedFormat_def)
  with assms(1,3) show ?thesis
    by (simp add: getVersions_def getItem_def getVersions_try_def)
qed

text \<open>
  C2, as the code has it. Let the stored text parse. Under the known key, whenever
  \<^verbatim>\<open>isExpectedFormat\<close> does not say yes to what the text parses to, the read gives
  the bundled list and leaves the store as it was: nothing is migrated. Under the local
  key, when \<^verbatim>\<open>isExpectedFormat\<close> says no, the read gives the migrated list, and the
  store then holds that list under the local key; when the text parses to something
  that is not an array, the read gives the empty list and leaves the store as it was.
\<close>

theorem getVersions_invalid_format_by_key:
  assumes "JSON_parse P t = Some parsed"
  shows "(isExpectedFormat parsed \<noteq> Inr True \<and> st (key_name VersionKeys_known) = Some t
            \<longrightarrow> getKnownVersions P releases st = (releases, st))
         \<and> (isExpectedFormat parsed = Inr False \<and> t \<noteq> []
              \<and> st (key_name VersionKeys_local) = Some t
            \<longrightarrow> (\<exists>m. migrateVersions parsed = Inr m
                  \<and> getLocalVersions P st
                      = (m, st(key_name VersionKeys_local \<mapsto> JSON_stringify P (JArr m)))))
         \<and> ((\<forall>xs. parsed \<noteq> JArr xs) \<and> st (key_name VersionKeys_local) = Some t
            \<longrightarrow> getLocalVersions P st = ([], st))"
proof (intro conjI impI)
  assume "isExpectedFormat parsed \<noteq> Inr True \<and> st (key_name VersionKeys_known) = Some t"
  then show "getKnownVersions P releases st = (releases, st)"
    using assms by (simp add: getKnownVersions_def getVersions_known_invalid)
next
  assume a: "isExpectedFormat parsed = Inr False \<and> t \<noteq> []
               \<and> st (key_name VersionKeys_local) = Some t"
  then have "st (key_name VersionKeys_local) = Some t" and "t \<noteq> []"
    and "isExpectedFormat parsed = Inr False"
    by simp_all
  then show "\<exists>m. migrateVersions parsed = Inr m
                  \<and> getLocalVersions P st
                      = (m, st(key_name VersionKeys_local \<mapsto> JSON_stringify P (JArr m)))"
    unfolding getLocalVersions_def using assms
    by (intro getVersions_local_invalid)
next
  assume "(\<forall>xs. parsed \<noteq> JArr xs) \<and> st (key_name VersionKeys_local) = Some t"
  then have "\<forall>xs. parsed \<noteq> JArr xs" and "st (key_name VersionKeys_local) = Some t"
    by simp_all
  with assms show "getLocalVersions P st = ([], st)"
    unfolding getLocalVersions_def by (rule getVersions_not_array)
qed

text \<open>
  On the legacy list of three entries: the bundled list under the known key, the
  migrated list, written back, under the local key. On a stored object: the empty list,
  and nothing written.
\<close>

theorem getVersions_invalid_format_by_key_witness:
  "JSON_parse sample_platform ''[{tag_name:v1.0.0,name:One,url:/a},{},{tag_name:v2.0.0}]''
     = Some (JArr sample_legacy)
   \<and> isExpectedFormat (JArr sample_legacy) = Inr False
   \<and> getKnownVersions sample_platform sample_known
         (Map.empty(''known-electron-versions'' \<mapsto>
            ''[{tag_name:v1.0.0,name:One,url:/a},{},{tag_name:v2.0.0}]''))
       = (sample_known,
          Map.empty(''known-electron-versions'' \<mapsto>
            ''[{tag_name:v1.0.0,name:One,url:/a},{},{tag_name:v2.0.0}]''))
   \<and> getLocalVersions sample_platform
         (Map.empty(''local-electron-versions'' \<mapsto>
            ''[{tag_name:v1.0.0,name:One,url:/a},{},{tag_name:v2.0.0}]''))
       = (sample_migrated,
          Map.empty(''local-electron-versions'' \<mapsto>
            ''[{version:v1.0.0,name:One,localPath:/a}]''))
   \<and> JSON_parse sample_platform ''{}'' = Some (JObj [])
   \<and> getLocalVersions sample_platform (Map.empty(''local-electron-versions'' \<mapsto> ''{}''))
       = ([], Map.empty(''local-electron-versions'' \<mapsto> ''{}''))"
proof -
  let ?t = "''[{tag_name:v1.0.0,name:One,url:/a},{},{tag_name:v2.0.0}]''"
  have p: "JSON_parse sample_platform ?t = Some (JArr sample_legacy)"
    and q: "JSON_parse sample_platform ''{}'' = Some (JObj [])"
    by (simp_all add: sample_defs)
  have f: "isExpectedFormat (JArr sample_legacy) = Inr False"
    by (simp add: isExpectedFormat_def has_truthy_version_def get_prop_def sample_defs)
  have m: "migrateVersions (JArr sample_legacy) = Inr sample_migrated"
    by (simp add: migrateVersions_def migrate_item_def sample_defs)
  have s: "JSON_stringify sample_platform (JArr sample_migrated)
             = ''[{version:v1.0.0,name:One,localPath:/a}]''"
    by (simp add: sample_defs)
  from getVersions_invalid_format_by_key
         [OF p, of "Map.empty(''known-electron-versions'' \<mapsto> ?t)" sample_known]
  have k: "getKnownVersions sample_platform sample_known
             (Map.empty(''known-electron-versions'' \<mapsto> ?t))
           = (sample_known, Map.empty(''known-electron-versions'' \<mapsto> ?t))"
    by (simp add: f)
  from getVersions_invalid_format_by_key
         [OF p, of "Map.empty(''local-electron-versions'' \<mapsto> ?t)" sample_known]
  have l: "getLocalVersions sample_platform (Map.empty(''local-electron-versions'' \<mapsto> ?t))
           = (sample_migrated,
              Map.empty(''local-electron-versions'' \<mapsto>
                ''[{version:v1.0.0,name:One,localPath:/a}]''))"
    by (simp add: f m s)
  from getVersions_invalid_format_by_key
         [OF q, of "Map.empty(''local-electron-versions'' \<mapsto> ''{}'')" sample_known]
  have o: "getLocalVersions sample_platform (Map.empty(''local-electron-versions'' \<mapsto> ''{}''))
           = ([], Map.empty(''local-electron-versions'' \<mapsto> ''{}''))"
    by simp
  from p f k l q o show ?thesis by simp
qed

text \<open>
  C2 as it is worded fails under the local key. A stored object parses and is not in
  the expected format, and there is nothing to migrate: the read gives the empty list
  and writes nothing. A stored list whose first entry is \<^verbatim>\<open>null\<close> parses and is not
  in the expected format either; \<^verbatim>\<open>isExpectedFormat\<close> throws on it, and the read
  gives the empty list and writes nothing, although \<^verbatim>\<open>migrateVersions\<close> makes a
  record of its second entry.
\<close>

theorem getVersions_invalid_format_counterexample:
  "JSON_parse sample_platform ''{}'' = Some (JObj [])
   \<and> isExpectedFormat (JObj []) = Inl TypeError
   \<and> migrateVersions (JObj []) = Inl TypeError
   \<and> getLocalVersions sample_platform (Map.empty(''local-electron-versions'' \<mapsto> ''{}''))
       = ([], Map.empty(''local-electron-versions'' \<mapsto> ''{}''))
   \<and> JSON_parse sample_platform ''[null,{tag_name:v1.0.0,name:One,url:/a}]''
       = Some (JArr [JNull,
                     JObj [(''tag_name'', JStr ''v1.0.0''), (''name'', JStr ''One''),
                           (''url'', JStr ''/a'')]])
   \<and> isExpectedFormat
         (JArr [JNull,
                JObj [(''tag_name'', JStr ''v1.0.0''), (''name'', JStr ''One''),
                      (''url'', JStr ''/a'')]])
       = Inl TypeError
   \<and> migrateVersions
         (JArr [JNull,
                JObj [(''tag_name'', JStr ''v1.0.0''), (''name'', JStr ''One''),
                      (''url'', JStr ''/a'')]])
       = Inr sample_migrated
   \<and> getLocalVersions sample_platform
         (Map.empty(''local-electron-versions'' \<mapsto>
            ''[null,{tag_name:v1.0.0,name:One,url:/a}]''))
       = ([], Map.empty(''local-electron-versions'' \<mapsto>
                 ''[null,{tag_name:v1.0.0,name:One,url:/a}]''))
   \<and> getLocalVersions sample_platform
         (Map.empty(''local-electron-versions'' \<mapsto>
            ''[null,{tag_name:v1.0.0,name:One,url:/a}]''))
       \<noteq> (sample_migrated,
           Map.empty(''local-electron-versions'' \<mapsto>
             ''[{version:v1.0.0,name:One,localPath:/a}]''))"
  by (simp add: getLocalVersions_def getVersions_def getItem_def getVersions_try_def
        isExpectedFormat_def has_truthy_version_def get_prop_def migrateVersions_def
        migrate_item_def sample_defs)





section \<open>The aggregated view\<close>

lemma tagged_source: "own_prop (tagged source state v) ''source'' = source"
  by (simp add: tagged_def update_conv')

lemma tagged_state: "own_prop (tagged source state v) ''state'' = state"
  by (simp add: tagged_def update_conv')

lemma tagged_other:
  "k \<noteq> ''source'' \<Longrightarrow> k \<noteq> ''state'' \<Longrightarrow> is_object v
     \<Longrightarrow> own_prop (tagged source state v) k = own_prop v k"
  by (cases v) (simp_all add: tagged_def update_conv')

lemma getKnownVersions_store: "snd (getKnownVersions P releases st) = st"
  by (simp add: getKnownVersions_def getVersions_known_store)

lemma getElectronVersions_eq:
  "getElectronVersions P releases st =
     (map (tagged ElectronVersionSource_remote ElectronVersionState_unknown)
        (fst (getKnownVersions P releases st))
      @ map (tagged ElectronVersionSource_local ElectronVersionState_ready)
          (fst (getLocalVersions P st)),
      snd (getLocalVersions P st))"
  using getKnownVersions_store [of P releases st]
  by (cases "getKnownVersions P releases st"; cases "getLocalVersions P st")
     (simp add: getElectronVersions_def)

text \<open>
  C5. \<^verbatim>\<open>getElectronVersions\<close> returns what the known collection loads to, each record
  with \<^verbatim>\<open>source\<close> remote and \<^verbatim>\<open>state\<close> unknown, followed by what the local
  collection loads to, each record with \<^verbatim>\<open>source\<close> local and \<^verbatim>\<open>state\<close> ready. The
  tags replace whatever the record had under these two keys and leave its other
  properties alone. Nothing is merged: the result is as long as the two lists together.
  When both collections are persisted in the expected format, these two lists are the
  persisted ones and the store is not written.
\<close>

theorem getElectronVersions_known_then_local:
  "getElectronVersions P releases st =
     (map (tagged ElectronVersionSource_remote ElectronVersionState_unknown)
        (fst (getKnownVersions P releases st))
      @ map (tagged ElectronVersionSource_local ElectronVersionState_ready)
          (fst (getLocalVersions P st)),
      snd (getLocalVersions P st))
   \<and> length (fst (getElectronVersions P releases st))
       = length (fst (getKnownVersions P releases st)) + length (fst (getLocalVersions P st))
   \<and> own_prop (tagged source state v) ''source'' = source
   \<and> own_prop (tagged source state v) ''state'' = state
   \<and> (is_object v \<and> k \<noteq> ''source'' \<and> k \<noteq> ''state''
        \<longrightarrow> own_prop (tagged source state v) k = own_prop v k)
   \<and> (st (key_name VersionKeys_known) = Some knownText \<and> knownText \<noteq> []
        \<and> JSON_parse P knownText = Some (JArr knownVersions) \<and> isExpectedFormat (JArr knownVersions) = Inr True
        \<and> st (key_name VersionKeys_local) = Some localText \<and> localText \<noteq> []
        \<and> JSON_parse P localText = Some (JArr localVersions) \<and> isExpectedFormat (JArr localVersions) = Inr True
        \<longrightarrow> getElectronVersions P releases st =
              (map (tagged ElectronVersionSource_remote ElectronVersionState_unknown) knownVersions
               @ map (tagged ElectronVersionSource_local ElectronVersionState_ready) localVersions,
               st))"
proof -
  have persisted: "getElectronVersions P releases st =
              (map (tagged ElectronVersionSource_remote ElectronVersionState_unknown) knownVersions
               @ map (tagged ElectronVersionSource_local ElectronVersionState_ready) localVersions,
               st)"
    if "st (key_name VersionKeys_known) = Some knownText" "knownText \<noteq> []"
       "JSON_parse P knownText = Some (JArr knownVersions)" "isExpectedFormat (JArr knownVersions) = Inr True"
       "st (key_name VersionKeys_local) = Some localText" "localText \<noteq> []"
       "JSON_parse P localText = Some (JArr localVersions)" "isExpectedFormat (JArr localVersions) = Inr True"
  proof -
    have "getKnownVersions P releases st = (knownVersions, st)"
      unfolding getKnownVersions_def using that(1-4) by (rule getVersions_valid)
    moreover have "getLocalVersions P st = (localVersions, st)"
      unfolding getLocalVersions_def using that(5-8) by (rule getVersions_valid)
    ultimately show ?thesis by (simp add: getElectronVersions_eq)
  qed
  show ?thesis
    using persisted
    by (simp add: getElectronVersions_eq tagged_source tagged_state tagged_other)
qed

theorem getElectronVersions_known_then_local_witness:
  "getElectronVersions sample_platform []
     (Map.empty(''known-electron-versions'' \<mapsto> ''[{version:1.0.0}]'',
                ''local-electron-versions'' \<mapsto> ''[{version:1.0.0,localPath:/x}]''))
   = ([JObj [(''version'', JStr ''1.0.0''), (''source'', JStr ''remote''),
             (''state'', JStr ''unknown'')],
       JObj [(''version'', JStr ''1.0.0''), (''localPath'', JStr ''/x''),
             (''source'', JStr ''local''), (''state'', JStr ''ready'')]],
      Map.empty(''known-electron-versions'' \<mapsto> ''[{version:1.0.0}]'',
                ''local-electron-versions'' \<mapsto> ''[{version:1.0.0,localPath:/x}]''))"
proof -
  let ?st = "Map.empty(''known-electron-versions'' \<mapsto> ''[{version:1.0.0}]'',
                       ''local-electron-versions'' \<mapsto> ''[{version:1.0.0,localPath:/x}]'')"
  have k: "?st (key_name VersionKeys_known) = Some ''[{version:1.0.0}]''
           \<and> ''[{version:1.0.0}]'' \<noteq> []
           \<and> JSON_parse sample_platform ''[{version:1.0.0}]'' = Some (JArr sample_known)
           \<and> isExpectedFormat (JArr sample_known) = Inr True"
    by (simp add: isExpectedFormat_def has_truthy_version_def get_prop_def sample_defs)
  have l: "?st (key_name VersionKeys_local) = Some ''[{version:1.0.0,localPath:/x}]''
           \<and> ''[{version:1.0.0,localPath:/x}]'' \<noteq> []
           \<and> JSON_parse sample_platform ''[{version:1.0.0,localPath:/x}]''
               = Some (JArr sample_local)
           \<and> isExpectedFormat (JArr sample_local) = Inr True"
    by (simp add: isExpectedFormat_def has_truthy_version_def get_prop_def sample_defs)
  from getElectronVersions_known_then_local
         [of sample_platform "[]" ?st _ _ _ _ "''[{version:1.0.0}]''" sample_known
             "''[{version:1.0.0,localPath:/x}]''" sample_local]
       k l
  have "getElectronVersions sample_platform [] ?st =
          (map (tagged ElectronVersionSource_remote ElectronVersionState_unknown) sample_known
           @ map (tagged ElectronVersionSource_local ElectronVersionState_ready) sample_local,
           ?st)"
    by blast
  then show ?thesis
    by (simp add: tagged_def sample_known_def sample_local_def
          ElectronVersionSource_remote_def ElectronVersionSource_local_def
          ElectronVersionState_unknown_def ElectronVersionState_ready_def)
qed

lemma find_same_localPath:
  assumes "\<forall>v\<in>set versions. is_object v" and "\<not> nullish input"
  shows "\<exists>found. Array_find (same_localPath input) versions = Inr found
           \<and> truthy found
               = (\<exists>v\<in>set versions.
                    strict_eq (own_prop v ''localPath'') (own_prop input ''localPath''))"
proof -
  have "\<forall>v\<in>set versions. same_localPath input v
          = Inr (strict_eq (own_prop v ''localPath'') (own_prop input ''localPath''))"
    using assms by (simp add: same_localPath_def get_prop_def is_object_not_nullish)
  then show ?thesis using assms(1) by (rule Array_find_objects)
qed

text \<open>
  C6, as the code has it. Let \<open>versions\<close> be what the local collection loads to,
  and let the given record be neither \<^verbatim>\<open>null\<close> nor \<^verbatim>\<open>undefined\<close>. If some record
  of \<open>versions\<close> has the \<^verbatim>\<open>localPath\<close> of the given record, whatever its
  version, the resulting list is \<open>versions\<close>; otherwise it is \<open>versions\<close> with
  the given record appended. Either way \<^verbatim>\<open>addLocalVersion\<close> returns the resulting
  list and saves it with \<^verbatim>\<open>saveLocalVersions\<close>: the store then holds it under the
  local key, without the records that carry a provenance tag other than \<^verbatim>\<open>local\<close>,
  hence whole when no record carries such a tag.
\<close>

theorem addLocalVersion_dedups_by_localPath:
  assumes "getLocalVersions P st = (versions, st1)"
      and "\<not> nullish input"
      and "result =
             (if \<exists>v\<in>set versions.
                   strict_eq (own_prop v ''localPath'') (own_prop input ''localPath'')
              then versions else versions @ [input])"
  shows "addLocalVersion P st input =
           (Inr result,
            st1(key_name VersionKeys_local \<mapsto>
                  JSON_stringify P (JArr (filter kept_on_save result))))
         \<and> saveLocalVersions P st1 result =
             Inr (st1(key_name VersionKeys_local \<mapsto>
                        JSON_stringify P (JArr (filter kept_on_save result))))
         \<and> ((\<forall>v\<in>set result. kept_on_save v) \<longrightarrow>
              addLocalVersion P st input =
                (Inr result,
                 st1(key_name VersionKeys_local \<mapsto> JSON_stringify P (JArr result))))"
proof -
  have objs: "\<forall>v\<in>set versions. is_object v"
    using assms(1) by (rule getLocalVersions_objects)
  have nn: "\<forall>v\<in>set result. \<not> nullish v"
    using objs assms(2) by (auto simp: assms(3) is_object_not_nullish)
  have save: "saveLocalVersions P st1 result =
      Inr (st1(key_name VersionKeys_local \<mapsto>
                 JSON_stringify P (JArr (filter kept_on_save result))))"
    using nn by (rule saveLocalVersions_eq)
  from find_same_localPath [OF objs assms(2)]
  obtain found where found: "Array_find (same_localPath input) versions = Inr found"
    and "truthy found
           = (\<exists>v\<in>set versions.
                strict_eq (own_prop v ''localPath'') (own_prop input ''localPath''))"
    by blast
  then have push: "pushed found input versions = result"
    by (simp add: pushed_def assms(3))
  have add: "addLocalVersion P st input =
      (Inr result,
       st1(key_name VersionKeys_local \<mapsto>
             JSON_stringify P (JArr (filter kept_on_save result))))"
    by (simp add: addLocalVersion_def assms(1) found push save Let_def del: key_name.simps)
  have "filter kept_on_save result = result" if "\<forall>v\<in>set result. kept_on_save v"
    using that by (simp add: filter_id_conv)
  with add save show ?thesis by (simp del: key_name.simps)
qed

text \<open>
  Two records with the same \<^verbatim>\<open>localPath\<close> and different versions, added one after
  the other to an empty store: the first is kept, the second is not added. A record
  tagged \<^verbatim>\<open>remote\<close>, added to an empty store: it is returned and not written.
\<close>

theorem addLocalVersion_dedups_by_localPath_witness:
  "addLocalVersion sample_platform Map.empty
     (JObj [(''version'', JStr ''1.0.0''), (''localPath'', JStr ''/x'')])
     = (Inr sample_local,
        Map.empty(''local-electron-versions'' \<mapsto> ''[{version:1.0.0,localPath:/x}]''))
   \<and> addLocalVersion sample_platform
        (Map.empty(''local-electron-versions'' \<mapsto> ''[{version:1.0.0,localPath:/x}]''))
        (JObj [(''version'', JStr ''2.0.0''), (''localPath'', JStr ''/x'')])
     = (Inr sample_local,
        Map.empty(''local-electron-versions'' \<mapsto> ''[{version:1.0.0,localPath:/x}]''))
   \<and> addLocalVersion sample_platform Map.empty
        (JObj [(''version'', JStr ''3.0.0''), (''localPath'', JStr ''/z''),
               (''source'', JStr ''remote'')])
     = (Inr [JObj [(''version'', JStr ''3.0.0''), (''localPath'', JStr ''/z''),
                   (''source'', JStr ''remote'')]],
        Map.empty(''local-electron-versions'' \<mapsto> ''[]''))"
proof -
  let ?st = "Map.empty(''local-electron-versions'' \<mapsto> ''[{version:1.0.0,localPath:/x}]'')"
  let ?one = "JObj [(''version'', JStr ''1.0.0''), (''localPath'', JStr ''/x'')]"
  let ?two = "JObj [(''version'', JStr ''2.0.0''), (''localPath'', JStr ''/x'')]"
  let ?three = "JObj [(''version'', JStr ''3.0.0''), (''localPath'', JStr ''/z''),
                      (''source'', JStr ''remote'')]"
  have e: "getLocalVersions sample_platform Map.empty = ([], Map.empty)"
    by (simp add: getLocalVersions_def getVersions_def getItem_def)
  have l: "getLocalVersions sample_platform ?st = (sample_local, ?st)"
    by (simp add: getLocalVersions_def getVersions_def getItem_def getVersions_try_def
          isExpectedFormat_def has_truthy_version_def get_prop_def sample_defs)
  have s: "JSON_stringify sample_platform (JArr sample_local)
             = ''[{version:1.0.0,localPath:/x}]''"
    and s0: "JSON_stringify sample_platform (JArr []) = ''[]''"
    by (simp_all add: sample_defs)
  have r1: "sample_local =
      (if \<exists>v\<in>set []. strict_eq (own_prop v ''localPath'') (own_prop ?one ''localPath'')
       then [] else [] @ [?one])"
    by (simp add: sample_local_def)
  have r2: "sample_local =
      (if \<exists>v\<in>set sample_local.
            strict_eq (own_prop v ''localPath'') (own_prop ?two ''localPath'')
       then sample_local else sample_local @ [?two])"
    by (simp add: sample_local_def)
  have r3: "[?three] =
      (if \<exists>v\<in>set []. strict_eq (own_prop v ''localPath'') (own_prop ?three ''localPath'')
       then [] else [] @ [?three])"
    by simp
  have k: "\<forall>v\<in>set sample_local. kept_on_save v"
    by (simp add: sample_local_def)
  have n: "\<not> nullish ?one" "\<not> nullish ?two" "\<not> nullish ?three" by simp_all
  from addLocalVersion_dedups_by_localPath [OF e n(1) r1] k
  have first: "addLocalVersion sample_platform Map.empty ?one = (Inr sample_local, ?st)"
    by (simp add: s)
  from addLocalVersion_dedups_by_localPath [OF l n(2) r2] k
  have second: "addLocalVersion sample_platform ?st ?two = (Inr sample_local, ?st)"
    by (simp add: s)
  from addLocalVersion_dedups_by_localPath [OF e n(3) r3]
  have third: "addLocalVersion sample_platform Map.empty ?three
                 = (Inr [?three], Map.empty(''local-electron-versions'' \<mapsto> ''[]''))"
    by (simp add: s0 ElectronVersionSource_local_def)
  from first second third show ?thesis by simp
qed

text \<open>
  C6 as it is worded fails: for a record tagged \<^verbatim>\<open>remote\<close> and an empty store, the
  list returned holds the record, and what is written under the local key is not that
  list but the empty one.
\<close>

theorem addLocalVersion_persisted_counterexample:
  "addLocalVersion sample_platform Map.empty
     (JObj [(''version'', JStr ''3.0.0''), (''localPath'', JStr ''/z''),
            (''source'', JStr ''remote'')])
     = (Inr [JObj [(''version'', JStr ''3.0.0''), (''localPath'', JStr ''/z''),
                   (''source'', JStr ''remote'')]],
        Map.empty(''local-electron-versions'' \<mapsto> ''[]''))
   \<and> JSON_stringify sample_platform
         (JArr [JObj [(''version'', JStr ''3.0.0''), (''localPath'', JStr ''/z''),
                      (''source'', JStr ''remote'')]])
       \<noteq> ''[]''
   \<and> getLocalVersions sample_platform (Map.empty(''local-electron-versions'' \<mapsto> ''[]''))
       = ([], Map.empty(''local-electron-versions'' \<mapsto> ''[]''))"
  by (simp add: addLocalVersion_def getLocalVersions_def getVersions_def getItem_def
        getVersions_try_def isExpectedFormat_def pushed_def saveLocalVersions_def
        saveVersions_def setItem_def is_saved_locally_def isElectronVersion_def
        get_prop_def ElectronVersionSource_local_def sample_defs)

end
